theory Spec2Isabelle
  imports Complex_Main
begin

section \<open>Conventions\<close>

text \<open>
  The repository holds two synthesis engines, \<^verbatim>\<open>honors1.py\<close> (one voice, plain sine)
  and \<^verbatim>\<open>honors2.py\<close> (two hands, overtones with exponential decay).  Both define
  classes named Wave, Note and Piano; the embedding keeps the names and tells the engines
  apart by the digit: \<open>Wave1_add\<close> is \<^verbatim>\<open>Wave.__add__\<close> of honors1, \<open>Wave2_add\<close> the
  one of honors2.

  Python floats are modelled as \<open>real\<close> and numpy arrays of floats as \<open>real list\<close>:
  rounding error of the float arithmetic is outside the model.  Python ints are \<open>int\<close>.
  An exception is a value \<open>Inl e\<close> of the result type \<open>error + 'a\<close>.
\<close>

datatype error = KeyError string | ValueError | ZeroDivisionError | IndexError

section \<open>Module constants\<close>

definition AMPLITUDE :: int where
  "AMPLITUDE = 4096"







section \<open>Python and numpy primitives used by the engines\<close>

text \<open>\<^verbatim>\<open>int(x)\<close> on a float truncates towards zero.\<close>

definition py_int :: "real \<Rightarrow> int" where
  "py_int x = (if 0 \<le> x then \<lfloor>x\<rfloor> else \<lceil>x\<rceil>)"

text \<open>\<^verbatim>\<open>np.zeros(n)\<close> raises ValueError on a negative dimension.\<close>

definition np_zeros :: "int \<Rightarrow> error + real list" where
  "np_zeros n = (if n < 0 then Inl ValueError else Inr (replicate (nat n) 0))"



text \<open>
  A slice bound of \<^verbatim>\<open>a[start:stop]\<close> on an array of length \<open>n\<close>: a negative bound
  counts from the end, and the result is clipped to \<open>[0, n]\<close>.
\<close>

definition slice_index :: "nat \<Rightarrow> int \<Rightarrow> nat" where
  "slice_index n i = (if i < 0 then nat (max 0 (i + int n)) else min (nat i) n)"

text \<open>
  \<^verbatim>\<open>a[start:stop] = v\<close> on numpy arrays.  The slice has \<open>m\<close> elements; \<open>v\<close> is stored
  when it has \<open>m\<close> elements, broadcast when it has exactly one, and numpy raises
  ValueError (could not broadcast input array) otherwise.
\<close>

definition slice_assign :: "real list \<Rightarrow> int \<Rightarrow> int \<Rightarrow> real list \<Rightarrow> error + real list" where
  "slice_assign a start stop v =
     (let lo = slice_index (length a) start;
          hi = slice_index (length a) stop;
          m = hi - lo
      in if length v = m then Inr (take lo a @ v @ drop (lo + m) a)
         else if length v = 1 then Inr (take lo a @ replicate m (hd v) @ drop (lo + m) a)
         else Inl ValueError)"

text \<open>
  \<^verbatim>\<open>a[:k] += v\<close> with \<open>k = len(v)\<close>, as both \<^verbatim>\<open>__add__\<close> methods use it on a buffer
  \<open>a\<close> of length \<open>max\<close> of the operands' lengths, so that the slice always has \<open>k\<close>
  elements.
\<close>

definition iadd_prefix :: "real list \<Rightarrow> real list \<Rightarrow> real list" where
  "iadd_prefix a v = map2 (+) (take (length v) a) v @ drop (length v) a"

section \<open>honors1: Wave\<close>

record Wave1 =
  w1_amplitude :: int
  w1_frequency :: real
  w1_duration :: real
  w1_data :: "real list"



definition Wave1_add :: "Wave1 \<Rightarrow> Wave1 \<Rightarrow> Wave1" where
  "Wave1_add self other =
     (let max_length = max (length (w1_data self)) (length (w1_data other));
          combined_data = replicate max_length 0;
          combined_data = iadd_prefix combined_data (w1_data self);
          combined_data = iadd_prefix combined_data (w1_data other)
      in \<lparr>w1_amplitude = AMPLITUDE, w1_frequency = w1_frequency self,
          w1_duration = w1_duration self, w1_data = combined_data\<rparr>)"

section \<open>honors2: Wave\<close>

record Wave2 =
  w2_frequency :: real
  w2_duration :: real
  w2_data :: "real list"




definition Wave2_add :: "Wave2 \<Rightarrow> Wave2 \<Rightarrow> Wave2" where
  "Wave2_add self other =
     (let max_length = max (length (w2_data self)) (length (w2_data other));
          combined_data = replicate max_length 0;
          combined_data = iadd_prefix combined_data (w2_data self);
          combined_data = iadd_prefix combined_data (w2_data other)
      in \<lparr>w2_frequency = w2_frequency self + w2_frequency other,
          w2_duration = w2_duration self, w2_data = combined_data\<rparr>)"

section \<open>Note\<close>




record Note1 =
  n1_pitch :: "string option"
  n1_octave :: int
  n1_duration_symbol :: string
  n1_tempo :: int
  n1_frequency :: real
  n1_duration :: real
  n1_amplitude :: int
  n1_wave :: Wave1


record Note2 =
  n2_pitch :: "string option"
  n2_octave :: int
  n2_duration_symbol :: string
  n2_tempo :: int
  n2_frequency :: real
  n2_duration :: real
  n2_wave :: Wave2


section \<open>honors1: Piano\<close>

record Piano1 =
  p1_notes :: "Note1 list"

definition Piano1_init :: Piano1 where
  "Piano1_init = \<lparr>p1_notes = []\<rparr>"

definition Piano1_add_note :: "Piano1 \<Rightarrow> Note1 \<Rightarrow> Piano1" where
  "Piano1_add_note self note = self\<lparr>p1_notes := p1_notes self @ [note]\<rparr>"

text \<open>The loop of \<^verbatim>\<open>get_combined_wave\<close>, on the buffer and \<^verbatim>\<open>current_index\<close>.\<close>

fun combined_wave_loop :: "real list \<Rightarrow> int \<Rightarrow> Note1 list \<Rightarrow> error + real list" where
  "combined_wave_loop combined_wave_data current_index [] = Inr combined_wave_data"
| "combined_wave_loop combined_wave_data current_index (note # notes) =
     (let length1 = int (length (w1_data (n1_wave note)))
      in case slice_assign combined_wave_data current_index (current_index + length1)
                (w1_data (n1_wave note)) of
           Inl e \<Rightarrow> Inl e
         | Inr combined_wave_data \<Rightarrow>
             combined_wave_loop combined_wave_data (current_index + length1) notes)"

definition Piano1_get_combined_wave :: "Piano1 \<Rightarrow> error + real list" where
  "Piano1_get_combined_wave self =
     (let total_length = sum_list (map (\<lambda>note. int (length (w1_data (n1_wave note))))
                                    (p1_notes self))
      in case np_zeros total_length of
           Inl e \<Rightarrow> Inl e
         | Inr combined_wave_data \<Rightarrow> combined_wave_loop combined_wave_data 0 (p1_notes self))"

section \<open>honors2: Piano\<close>

record Piano2 =
  notes_left :: "(Note2 \<times> real) list"
  notes_right :: "(Note2 \<times> real) list"
  time_left :: real
  time_right :: real

definition Piano2_init :: Piano2 where
  "Piano2_init = \<lparr>notes_left = [], notes_right = [], time_left = 0, time_right = 0\<rparr>"

definition Piano2_add_note_left :: "Piano2 \<Rightarrow> Note2 \<Rightarrow> Piano2" where
  "Piano2_add_note_left self note =
     self\<lparr>notes_left := notes_left self @ [(note, time_left self)],
          time_left := time_left self + n2_duration note\<rparr>"

definition Piano2_add_note_right :: "Piano2 \<Rightarrow> Note2 \<Rightarrow> Piano2" where
  "Piano2_add_note_right self note =
     self\<lparr>notes_right := notes_right self @ [(note, time_right self)],
          time_right := time_right self + n2_duration note\<rparr>"






section \<open>Observing results\<close>





section \<open>Formulas of the specification\<close>


text \<open>
  Sections 3 and 5: waveforms combine over the union of their index ranges, the shorter
  one padded with zeros.  \<open>padded xs i\<close> is what a buffer gives at index \<open>i\<close>.
\<close>

definition padded :: "real list \<Rightarrow> nat \<Rightarrow> real" where
  "padded xs i = (if i < length xs then xs ! i else 0)"



section \<open>Invariants\<close>


text \<open>
  The entries that \<^verbatim>\<open>add_note_left\<close> (or \<^verbatim>\<open>add_note_right\<close>) appends for the notes
  \<open>ns\<close> when the hand's clock stands at \<open>t\<close>: each note at the clock, which then advances
  by the note's duration.
\<close>

fun scheduled :: "real \<Rightarrow> Note2 list \<Rightarrow> (Note2 \<times> real) list" where
  "scheduled t [] = []"
| "scheduled t (n # ns) = (n, t) # scheduled (t + n2_duration n) ns"

section \<open>Concrete inputs\<close>


text \<open>
  Notes of one or two samples, small enough to be evaluated in full.  Their fields are
  consistent with each other (duration, number of samples) though no table entry gives so
  short a duration.
\<close>

definition two_sample_note :: Note1 where
  "two_sample_note =
     \<lparr>n1_pitch = Some ''C'', n1_octave = 4, n1_duration_symbol = ''QN'', n1_tempo = 60,
      n1_frequency = 262, n1_duration = 1 / 22050, n1_amplitude = 4096,
      n1_wave = \<lparr>w1_amplitude = 4096, w1_frequency = 262, w1_duration = 1 / 22050,
                 w1_data = [1, 2]\<rparr>\<rparr>"

definition one_sample_rest :: Note1 where
  "one_sample_rest =
     \<lparr>n1_pitch = None, n1_octave = 0, n1_duration_symbol = ''QN'', n1_tempo = 60,
      n1_frequency = 0, n1_duration = 1 / 44100, n1_amplitude = 0,
      n1_wave = \<lparr>w1_amplitude = 0, w1_frequency = 0, w1_duration = 1 / 44100,
                 w1_data = [0]\<rparr>\<rparr>"

definition short_note :: Note2 where
  "short_note =
     \<lparr>n2_pitch = Some ''C'', n2_octave = 4, n2_duration_symbol = ''QN'', n2_tempo = 60,
      n2_frequency = 262, n2_duration = 1 / 22050,
      n2_wave = \<lparr>w2_frequency = 262, w2_duration = 1 / 22050, w2_data = [1, 2]\<rparr>\<rparr>"

definition short_rest :: Note2 where
  "short_rest =
     \<lparr>n2_pitch = None, n2_octave = 0, n2_duration_symbol = ''QN'', n2_tempo = 60,
      n2_frequency = 0, n2_duration = 1 / 44100,
      n2_wave = \<lparr>w2_frequency = 0, w2_duration = 1 / 44100, w2_data = [0]\<rparr>\<rparr>"

section \<open>Waveform addition\<close>

lemma length_iadd_prefix:
  "length v \<le> length a \<Longrightarrow> length (iadd_prefix a v) = length a"
  by (simp add: iadd_prefix_def)

lemma nth_iadd_prefix:
  assumes "length v \<le> length a" and "i < length a"
  shows "iadd_prefix a v ! i = a ! i + padded v i"
proof (cases "i < length v")
  case True
  with assms show ?thesis
    by (simp add: iadd_prefix_def padded_def nth_append)
next
  case False
  with assms show ?thesis
    by (simp add: iadd_prefix_def padded_def nth_append)
qed

lemma combined_data_eq:
  "iadd_prefix (iadd_prefix (replicate (max (length a) (length b)) 0) a) b
     = map (\<lambda>i. padded a i + padded b i) [0..<max (length a) (length b)]"
proof (rule nth_equalityI)
  show "length (iadd_prefix (iadd_prefix (replicate (max (length a) (length b)) 0) a) b)
          = length (map (\<lambda>i. padded a i + padded b i) [0..<max (length a) (length b)])"
    by (simp add: length_iadd_prefix)
next
  fix i
  assume "i < length (iadd_prefix (iadd_prefix (replicate (max (length a) (length b)) 0) a) b)"
  then have i: "i < max (length a) (length b)"
    by (simp add: length_iadd_prefix)
  then show "iadd_prefix (iadd_prefix (replicate (max (length a) (length b)) 0) a) b ! i
          = map (\<lambda>i. padded a i + padded b i) [0..<max (length a) (length b)] ! i"
    by (simp add: nth_iadd_prefix length_iadd_prefix)
qed

lemma Wave1_add_data:
  "w1_data (Wave1_add a b)
     = map (\<lambda>i. padded (w1_data a) i + padded (w1_data b) i)
         [0..<max (length (w1_data a)) (length (w1_data b))]"
  by (simp add: Wave1_add_def Let_def combined_data_eq)

lemma Wave2_add_data:
  "w2_data (Wave2_add a b)
     = map (\<lambda>i. padded (w2_data a) i + padded (w2_data b) i)
         [0..<max (length (w2_data a)) (length (w2_data b))]"
  by (simp add: Wave2_add_def Let_def combined_data_eq)

subsection \<open>C5: addition is elementwise over the longer buffer, and commutative\<close>

text \<open>
  Claim C5.  For any two waveforms, \<^verbatim>\<open>__add__\<close> of both engines returns a buffer whose
  length is the larger of the two lengths and whose sample at index \<open>i\<close> is the sum of
  the operands' samples at \<open>i\<close>, a missing sample counting as zero.  Hence the samples of
  \<open>a + b\<close> are those of \<open>b + a\<close>, whatever the frequencies.
\<close>

theorem Wave_add_elementwise:
  "length (w1_data (Wave1_add a b)) = max (length (w1_data a)) (length (w1_data b))
   \<and> (\<forall>i < max (length (w1_data a)) (length (w1_data b)).
         w1_data (Wave1_add a b) ! i = padded (w1_data a) i + padded (w1_data b) i)
   \<and> w1_data (Wave1_add a b) = w1_data (Wave1_add b a)
   \<and> length (w2_data (Wave2_add c d)) = max (length (w2_data c)) (length (w2_data d))
   \<and> (\<forall>i < max (length (w2_data c)) (length (w2_data d)).
         w2_data (Wave2_add c d) ! i = padded (w2_data c) i + padded (w2_data d) i)
   \<and> w2_data (Wave2_add c d) = w2_data (Wave2_add d c)"
  by (simp add: Wave1_add_data Wave2_add_data add.commute max.commute)

text \<open>Witness for C5: a three-sample and a one-sample buffer, at index 1.\<close>

theorem Wave_add_elementwise_witness:
  "(1::nat) < max (length [1, 2, 3 :: real]) (length [10 :: real])
   \<and> w1_data (Wave1_add \<lparr>w1_amplitude = 4096, w1_frequency = 440, w1_duration = 1, w1_data = [1, 2, 3]\<rparr>
                 \<lparr>w1_amplitude = 4096, w1_frequency = 880, w1_duration = 1/2, w1_data = [10]\<rparr>) ! 1 = 2
   \<and> w2_data (Wave2_add \<lparr>w2_frequency = 440, w2_duration = 1, w2_data = [1, 2, 3]\<rparr>
                 \<lparr>w2_frequency = 880, w2_duration = 1/2, w2_data = [10]\<rparr>) ! 1 = 2"
proof -
  let ?a = "\<lparr>w1_amplitude = 4096, w1_frequency = 440, w1_duration = 1, w1_data = [1, 2, 3]\<rparr>"
  let ?b = "\<lparr>w1_amplitude = 4096, w1_frequency = 880, w1_duration = 1/2, w1_data = [10]\<rparr>"
  let ?c = "\<lparr>w2_frequency = 440, w2_duration = 1, w2_data = [1, 2, 3]\<rparr>"
  let ?d = "\<lparr>w2_frequency = 880, w2_duration = 1/2, w2_data = [10]\<rparr>"
  have i: "(1::nat) < max (length [1, 2, 3 :: real]) (length [10 :: real])"
    by simp
  note inst = Wave_add_elementwise [of ?a ?b ?c ?d]
  have all1: "\<forall>i < max (length (w1_data ?a)) (length (w1_data ?b)).
      w1_data (Wave1_add ?a ?b) ! i = padded (w1_data ?a) i + padded (w1_data ?b) i"
    using inst by blast
  have all2: "\<forall>i < max (length (w2_data ?c)) (length (w2_data ?d)).
      w2_data (Wave2_add ?c ?d) ! i = padded (w2_data ?c) i + padded (w2_data ?d) i"
    using inst by blast
  have i1: "1 < max (length (w1_data ?a)) (length (w1_data ?b))"
    by simp
  have i2: "1 < max (length (w2_data ?c)) (length (w2_data ?d))"
    by simp
  from all1 i1 have "w1_data (Wave1_add ?a ?b) ! 1 = padded (w1_data ?a) 1 + padded (w1_data ?b) 1"
    by blast
  then have r1: "w1_data (Wave1_add ?a ?b) ! 1 = 2"
    by (simp add: padded_def)
  from all2 i2 have "w2_data (Wave2_add ?c ?d) ! 1 = padded (w2_data ?c) 1 + padded (w2_data ?d) 1"
    by blast
  then have r2: "w2_data (Wave2_add ?c ?d) ! 1 = 2"
    by (simp add: padded_def)
  from i r1 r2 show ?thesis
    by blast
qed

section \<open>The waveform generators\<close>

lemma py_int_nonneg: "0 \<le> x \<Longrightarrow> py_int x = \<lfloor>x\<rfloor>"
  by (simp add: py_int_def)















subsection \<open>C1: the number of samples\<close>







subsection \<open>C2: the samples of the additive generator\<close>








section \<open>Note construction\<close>














subsection \<open>C7: unknown tempo names and duration symbols\<close>









subsection \<open>Frequencies\<close>






subsection \<open>C9: the frequency formula\<close>





subsection \<open>C8: a pitch outside the twelve classes\<close>





section \<open>Slice assignment\<close>

lemma slice_index_inside: "i \<le> n \<Longrightarrow> slice_index n (int i) = i"
  by (simp add: slice_index_def)

lemma slice_assign_fits:
  assumes "lo + length v \<le> length a"
  shows "slice_assign a (int lo) (int lo + int (length v)) v
           = Inr (take lo a @ v @ drop (lo + length v) a)"
proof -
  have lo: "slice_index (length a) (int lo) = lo"
    using assms by (simp add: slice_index_inside)
  have "int lo + int (length v) = int (lo + length v)"
    by simp
  then have hi: "slice_index (length a) (int lo + int (length v)) = lo + length v"
    using assms by (simp only: slice_index_inside)
  show ?thesis
    by (simp add: slice_assign_def lo hi Let_def)
qed

section \<open>honors1: the combined wave\<close>

lemma combined_wave_loop_concat:
  "length rest = sum_list (map (\<lambda>n. length (w1_data (n1_wave n))) notes) \<Longrightarrow>
     combined_wave_loop (done @ rest) (int (length done)) notes
       = Inr (done @ concat (map (\<lambda>n. w1_data (n1_wave n)) notes))"
proof (induction "notes" arbitrary: "done" rest)
  case Nil
  then show ?case by simp
next
  case (Cons n ns)
  let ?v = "w1_data (n1_wave n)"
  from Cons.prems have len: "length ?v \<le> length rest"
    by simp
  then have fit: "length done + length ?v \<le> length (done @ rest)"
    by simp
  have assign: "slice_assign (done @ rest) (int (length done)) (int (length done) + int (length ?v)) ?v
      = Inr ((done @ ?v) @ drop (length ?v) rest)"
    using slice_assign_fits [OF fit] by simp
  have rest': "length (drop (length ?v) rest)
      = sum_list (map (\<lambda>n. length (w1_data (n1_wave n))) ns)"
    using Cons.prems by simp
  have "combined_wave_loop (done @ rest) (int (length done)) (n # ns)
      = combined_wave_loop ((done @ ?v) @ drop (length ?v) rest) (int (length (done @ ?v))) ns"
    by (simp add: assign Let_def)
  also have "\<dots> = Inr ((done @ ?v) @ concat (map (\<lambda>n. w1_data (n1_wave n)) ns))"
    by (rule Cons.IH [OF rest'])
  finally show ?case
    by simp
qed

lemma sum_list_int_length:
  "sum_list (map (\<lambda>n. int (f n)) xs) = int (sum_list (map f xs))"
  by (induction xs) simp_all

lemma Piano1_get_combined_wave_concat:
  "Piano1_get_combined_wave p = Inr (concat (map (\<lambda>n. w1_data (n1_wave n)) (p1_notes p)))"
proof -
  let ?total = "sum_list (map (\<lambda>n. length (w1_data (n1_wave n))) (p1_notes p))"
  have z: "np_zeros (sum_list (map (\<lambda>note. int (length (w1_data (n1_wave note)))) (p1_notes p)))
      = Inr (replicate ?total 0)"
    by (simp add: np_zeros_def sum_list_int_length)
  have "combined_wave_loop ([] @ replicate ?total 0) (int (length ([] :: real list))) (p1_notes p)
      = Inr ([] @ concat (map (\<lambda>n. w1_data (n1_wave n)) (p1_notes p)))"
    by (rule combined_wave_loop_concat) simp
  then show ?thesis
    by (simp add: Piano1_get_combined_wave_def z Let_def)
qed

lemma Piano1_add_notes:
  "p1_notes (foldl Piano1_add_note p notes) = p1_notes p @ notes"
  by (induction "notes" arbitrary: p) (simp_all add: Piano1_add_note_def)

lemma nth_concat_offset:
  "k < length xss \<Longrightarrow> i < length (xss ! k) \<Longrightarrow>
     concat xss ! (sum_list (map length (take k xss)) + i) = xss ! k ! i"
proof (induction xss arbitrary: k)
  case Nil
  then show ?case by simp
next
  case (Cons xs xss)
  show ?case
  proof (cases k)
    case 0
    with Cons.prems show ?thesis
      by (simp add: nth_append)
  next
    case (Suc j)
    with Cons.prems Cons.IH [of j] show ?thesis
      by (simp add: nth_append add.assoc)
  qed
qed

subsection \<open>C10: the single voice is a concatenation\<close>

text \<open>
  Claim C10.  In the honors1 engine, after any sequence of notes has been added to a new
  Piano, \<^verbatim>\<open>get_combined_wave\<close> returns the concatenation of the notes' sample
  buffers in the order of insertion.  Its length is the sum of the buffers' lengths, and
  sample \<open>i\<close> of note \<open>k\<close> sits at the index "sum of the lengths of notes \<open>0..k-1\<close>
  plus \<open>i\<close>": the notes are contiguous, with no rounding of start times, no gap and
  no overlap.
\<close>

theorem get_combined_wave_concatenation:
  "p1_notes (foldl Piano1_add_note Piano1_init notes) = notes
   \<and> Piano1_get_combined_wave (foldl Piano1_add_note Piano1_init notes)
        = Inr (concat (map (\<lambda>n. w1_data (n1_wave n)) notes))
   \<and> length (concat (map (\<lambda>n. w1_data (n1_wave n)) notes))
        = sum_list (map (\<lambda>n. length (w1_data (n1_wave n))) notes)
   \<and> (\<forall>k < length notes. \<forall>i < length (w1_data (n1_wave (notes ! k))).
        concat (map (\<lambda>n. w1_data (n1_wave n)) notes)
          ! (sum_list (map (\<lambda>n. length (w1_data (n1_wave n))) (take k notes)) + i)
        = w1_data (n1_wave (notes ! k)) ! i)"
proof -
  have added: "p1_notes (foldl Piano1_add_note Piano1_init notes) = notes"
    by (simp add: Piano1_add_notes Piano1_init_def)
  have len: "length (concat (map (\<lambda>n. w1_data (n1_wave n)) notes))
        = sum_list (map (\<lambda>n. length (w1_data (n1_wave n))) notes)"
    by (simp add: length_concat o_def)
  have pos: "concat (map (\<lambda>n. w1_data (n1_wave n)) notes)
          ! (sum_list (map (\<lambda>n. length (w1_data (n1_wave n))) (take k notes)) + i)
        = w1_data (n1_wave (notes ! k)) ! i"
    if "k < length notes" and "i < length (w1_data (n1_wave (notes ! k)))" for k i
    using nth_concat_offset [of k "map (\<lambda>n. w1_data (n1_wave n)) notes" i] that
    by (simp add: take_map o_def)
  show ?thesis
    using added len pos by (simp add: Piano1_get_combined_wave_concat)
qed


text \<open>Witness for C10: a note of two samples followed by a rest of one sample.\<close>

theorem get_combined_wave_concatenation_witness:
  "(1::nat) < length [two_sample_note, one_sample_rest]
   \<and> (0::nat) < length (w1_data (n1_wave ([two_sample_note, one_sample_rest] ! 1)))
   \<and> Piano1_get_combined_wave
        (foldl Piano1_add_note Piano1_init [two_sample_note, one_sample_rest]) = Inr [1, 2, 0]
   \<and> [1, 2, 0 :: real] ! (2 + 0) = w1_data (n1_wave one_sample_rest) ! 0"
proof -
  let ?ns = "[two_sample_note, one_sample_rest]"
  note inst = get_combined_wave_concatenation [of ?ns]
  have k: "(1::nat) < length ?ns"
    by simp
  have i: "(0::nat) < length (w1_data (n1_wave (?ns ! 1)))"
    by (simp add: one_sample_rest_def)
  have c: "concat (map (\<lambda>n. w1_data (n1_wave n)) ?ns) = [1, 2, 0]"
    by (simp add: two_sample_note_def one_sample_rest_def)
  have o: "sum_list (map (\<lambda>n. length (w1_data (n1_wave n))) (take 1 ?ns)) = 2"
    by (simp add: two_sample_note_def)
  from inst have "Piano1_get_combined_wave (foldl Piano1_add_note Piano1_init ?ns)
      = Inr (concat (map (\<lambda>n. w1_data (n1_wave n)) ?ns))"
    by blast
  then have r: "Piano1_get_combined_wave (foldl Piano1_add_note Piano1_init ?ns) = Inr [1, 2, 0]"
    by (simp only: c)
  from inst have "\<forall>k < length ?ns. \<forall>i < length (w1_data (n1_wave (?ns ! k))).
        concat (map (\<lambda>n. w1_data (n1_wave n)) ?ns)
          ! (sum_list (map (\<lambda>n. length (w1_data (n1_wave n))) (take k ?ns)) + i)
        = w1_data (n1_wave (?ns ! k)) ! i"
    by blast
  with k i have "concat (map (\<lambda>n. w1_data (n1_wave n)) ?ns)
          ! (sum_list (map (\<lambda>n. length (w1_data (n1_wave n))) (take 1 ?ns)) + 0)
        = w1_data (n1_wave (?ns ! 1)) ! 0"
    by blast
  then have p: "[1, 2, 0 :: real] ! (2 + 0) = w1_data (n1_wave one_sample_rest) ! 0"
    by (simp only: c o) simp
  from k i r p show ?thesis
    by blast
qed

section \<open>honors2: the clocks of the two hands\<close>

lemma scheduled_append:
  "scheduled t (ns @ [n]) = scheduled t ns @ [(n, t + sum_list (map n2_duration ns))]"
  by (induction ns arbitrary: t) (simp_all add: add.assoc)

lemma length_scheduled: "length (scheduled t ns) = length ns"
  by (induction ns arbitrary: t) simp_all

lemma map_fst_scheduled: "map fst (scheduled t ns) = ns"
  by (induction ns arbitrary: t) simp_all

lemma nth_scheduled:
  "k < length ns \<Longrightarrow>
     scheduled t ns ! k = (ns ! k, t + sum_list (map n2_duration (take k ns)))"
proof (induction ns arbitrary: t k)
  case Nil
  then show ?case by simp
next
  case (Cons n ns)
  then show ?case
    by (cases k) (simp_all add: add.assoc)
qed

lemma scheduled_zip:
  "scheduled t ns
     = zip ns (map (\<lambda>k. t + sum_list (map n2_duration (take k ns))) [0..<length ns])"
  by (rule nth_equalityI) (simp_all add: length_scheduled nth_scheduled)

lemma scheduled_lower_bound:
  "\<forall>n \<in> set ns. 0 \<le> n2_duration n \<Longrightarrow> x \<in> set (map snd (scheduled t ns)) \<Longrightarrow> t \<le> x"
proof (induction ns arbitrary: t)
  case Nil
  then show ?case by simp
next
  case (Cons n ns)
  from Cons.prems(2) consider "x = t" | "x \<in> set (map snd (scheduled (t + n2_duration n) ns))"
    by auto
  then show ?case
  proof cases
    case 1
    then show ?thesis by simp
  next
    case 2
    with Cons.IH [of "t + n2_duration n"] Cons.prems(1) have "t + n2_duration n \<le> x"
      by simp
    with Cons.prems(1) show ?thesis
      by simp
  qed
qed

lemma sorted_scheduled:
  "\<forall>n \<in> set ns. 0 \<le> n2_duration n \<Longrightarrow> sorted (map snd (scheduled t ns))"
proof (induction ns arbitrary: t)
  case Nil
  then show ?case by simp
next
  case (Cons n ns)
  have "t \<le> x" if "x \<in> set (map snd (scheduled (t + n2_duration n) ns))" for x
  proof -
    from scheduled_lower_bound [of ns x "t + n2_duration n"] Cons.prems that
    have "t + n2_duration n \<le> x"
      by simp
    with Cons.prems show ?thesis
      by simp
  qed
  with Cons show ?case
    by simp
qed

lemma add_notes_left:
  "foldl Piano2_add_note_left p ns =
     p\<lparr>notes_left := notes_left p @ scheduled (time_left p) ns,
       time_left := time_left p + sum_list (map n2_duration ns)\<rparr>"
proof (induction ns rule: rev_induct)
  case Nil
  then show ?case by simp
next
  case (snoc n ns)
  then show ?case
    by (simp add: Piano2_add_note_left_def scheduled_append add.assoc)
qed

lemma add_notes_right:
  "foldl Piano2_add_note_right p ns =
     p\<lparr>notes_right := notes_right p @ scheduled (time_right p) ns,
       time_right := time_right p + sum_list (map n2_duration ns)\<rparr>"
proof (induction ns rule: rev_induct)
  case Nil
  then show ?case by simp
next
  case (snoc n ns)
  then show ?case
    by (simp add: Piano2_add_note_right_def scheduled_append add.assoc)
qed

subsection \<open>C4: start times within one voice\<close>

text \<open>
  Claim C4.  When the notes \<open>ns\<close>, with durations \<open>d\<^sub>1, ..., d\<^sub>n\<close>, are added to one
  hand of a new Piano, the notes are recorded in order, note \<open>k\<close> with the start time
  \<open>\<Sum>j<k. d\<^sub>j\<close>, and the hand's clock ends at the sum of all durations.  Each note starts
  where its predecessor ends (back to back).  Added to any Piano, the notes are appended
  from that hand's current clock on, and the other hand is left as it was.  When no
  duration is negative, as for every constructed Note, the start times are non-negative
  and non-decreasing, so the notes of one voice never overlap.
\<close>

theorem add_note_start_times:
  "map fst (notes_left (foldl Piano2_add_note_left Piano2_init ns)) = ns
   \<and> map fst (notes_right (foldl Piano2_add_note_right Piano2_init ns)) = ns
   \<and> (\<forall>k < length ns.
         snd (notes_left (foldl Piano2_add_note_left Piano2_init ns) ! k)
           = sum_list (map n2_duration (take k ns))
       \<and> snd (notes_right (foldl Piano2_add_note_right Piano2_init ns) ! k)
           = sum_list (map n2_duration (take k ns)))
   \<and> time_left (foldl Piano2_add_note_left Piano2_init ns) = sum_list (map n2_duration ns)
   \<and> time_right (foldl Piano2_add_note_right Piano2_init ns) = sum_list (map n2_duration ns)
   \<and> (\<forall>k. Suc k < length ns \<longrightarrow>
         snd (notes_left (foldl Piano2_add_note_left Piano2_init ns) ! Suc k)
           = snd (notes_left (foldl Piano2_add_note_left Piano2_init ns) ! k) + n2_duration (ns ! k)
       \<and> snd (notes_right (foldl Piano2_add_note_right Piano2_init ns) ! Suc k)
           = snd (notes_right (foldl Piano2_add_note_right Piano2_init ns) ! k) + n2_duration (ns ! k))
   \<and> notes_left (foldl Piano2_add_note_left p ns)
         = notes_left p @ zip ns (map (\<lambda>k. time_left p + sum_list (map n2_duration (take k ns)))
                                   [0..<length ns])
   \<and> time_left (foldl Piano2_add_note_left p ns) = time_left p + sum_list (map n2_duration ns)
   \<and> notes_right (foldl Piano2_add_note_left p ns) = notes_right p
   \<and> time_right (foldl Piano2_add_note_left p ns) = time_right p
   \<and> notes_right (foldl Piano2_add_note_right p ns)
         = notes_right p @ zip ns (map (\<lambda>k. time_right p + sum_list (map n2_duration (take k ns)))
                                    [0..<length ns])
   \<and> time_right (foldl Piano2_add_note_right p ns) = time_right p + sum_list (map n2_duration ns)
   \<and> notes_left (foldl Piano2_add_note_right p ns) = notes_left p
   \<and> time_left (foldl Piano2_add_note_right p ns) = time_left p
   \<and> ((\<forall>n \<in> set ns. 0 \<le> n2_duration n) \<longrightarrow>
         (\<forall>x \<in> set (map snd (notes_left (foldl Piano2_add_note_left Piano2_init ns))). 0 \<le> x)
       \<and> sorted (map snd (notes_left (foldl Piano2_add_note_left Piano2_init ns)))
       \<and> (\<forall>x \<in> set (map snd (notes_right (foldl Piano2_add_note_right Piano2_init ns))). 0 \<le> x)
       \<and> sorted (map snd (notes_right (foldl Piano2_add_note_right Piano2_init ns))))"
proof -
  have l: "notes_left (foldl Piano2_add_note_left Piano2_init ns) = scheduled 0 ns"
    and tl: "time_left (foldl Piano2_add_note_left Piano2_init ns) = sum_list (map n2_duration ns)"
    by (simp_all add: add_notes_left Piano2_init_def)
  have r: "notes_right (foldl Piano2_add_note_right Piano2_init ns) = scheduled 0 ns"
    and tr: "time_right (foldl Piano2_add_note_right Piano2_init ns) = sum_list (map n2_duration ns)"
    by (simp_all add: add_notes_right Piano2_init_def)
  have start: "snd (scheduled 0 ns ! k) = sum_list (map n2_duration (take k ns))"
    if "k < length ns" for k
    using nth_scheduled [OF that, of 0] by simp
  have step: "snd (scheduled 0 ns ! Suc k) = snd (scheduled 0 ns ! k) + n2_duration (ns ! k)"
    if "Suc k < length ns" for k
  proof -
    from that have k: "k < length ns"
      by simp
    have "take (Suc k) ns = take k ns @ [ns ! k]"
      using k by (rule take_Suc_conv_app_nth)
    then show ?thesis
      using start [OF that] start [OF k] by simp
  qed
  have nonneg: "0 \<le> x"
    if "\<forall>n \<in> set ns. 0 \<le> n2_duration n" and "x \<in> set (map snd (scheduled 0 ns))" for x
    using scheduled_lower_bound [OF that] .
  have first: "map fst (notes_left (foldl Piano2_add_note_left Piano2_init ns)) = ns
      \<and> map fst (notes_right (foldl Piano2_add_note_right Piano2_init ns)) = ns
      \<and> time_left (foldl Piano2_add_note_left Piano2_init ns) = sum_list (map n2_duration ns)
      \<and> time_right (foldl Piano2_add_note_right Piano2_init ns) = sum_list (map n2_duration ns)"
    by (simp add: l r tl tr map_fst_scheduled)
  have starts: "\<forall>k < length ns.
         snd (notes_left (foldl Piano2_add_note_left Piano2_init ns) ! k)
           = sum_list (map n2_duration (take k ns))
       \<and> snd (notes_right (foldl Piano2_add_note_right Piano2_init ns) ! k)
           = sum_list (map n2_duration (take k ns))"
    unfolding l r using start by simp
  have steps: "\<forall>k. Suc k < length ns \<longrightarrow>
         snd (notes_left (foldl Piano2_add_note_left Piano2_init ns) ! Suc k)
           = snd (notes_left (foldl Piano2_add_note_left Piano2_init ns) ! k) + n2_duration (ns ! k)
       \<and> snd (notes_right (foldl Piano2_add_note_right Piano2_init ns) ! Suc k)
           = snd (notes_right (foldl Piano2_add_note_right Piano2_init ns) ! k) + n2_duration (ns ! k)"
    unfolding l r using step by simp
  have general: "notes_left (foldl Piano2_add_note_left p ns)
         = notes_left p @ zip ns (map (\<lambda>k. time_left p + sum_list (map n2_duration (take k ns)))
                                   [0..<length ns])
   \<and> time_left (foldl Piano2_add_note_left p ns) = time_left p + sum_list (map n2_duration ns)
   \<and> notes_right (foldl Piano2_add_note_left p ns) = notes_right p
   \<and> time_right (foldl Piano2_add_note_left p ns) = time_right p
   \<and> notes_right (foldl Piano2_add_note_right p ns)
         = notes_right p @ zip ns (map (\<lambda>k. time_right p + sum_list (map n2_duration (take k ns)))
                                    [0..<length ns])
   \<and> time_right (foldl Piano2_add_note_right p ns) = time_right p + sum_list (map n2_duration ns)
   \<and> notes_left (foldl Piano2_add_note_right p ns) = notes_left p
   \<and> time_left (foldl Piano2_add_note_right p ns) = time_left p"
    by (simp add: add_notes_left add_notes_right scheduled_zip)
  have ordered: "(\<forall>n \<in> set ns. 0 \<le> n2_duration n) \<longrightarrow>
         (\<forall>x \<in> set (map snd (notes_left (foldl Piano2_add_note_left Piano2_init ns))). 0 \<le> x)
       \<and> sorted (map snd (notes_left (foldl Piano2_add_note_left Piano2_init ns)))
       \<and> (\<forall>x \<in> set (map snd (notes_right (foldl Piano2_add_note_right Piano2_init ns))). 0 \<le> x)
       \<and> sorted (map snd (notes_right (foldl Piano2_add_note_right Piano2_init ns)))"
    unfolding l r using nonneg sorted_scheduled [of ns 0] by blast
  from first starts steps general ordered show ?thesis
    by blast
qed


text \<open>Witness for C4: a note of \<open>1/22050\<close> seconds followed by a rest of \<open>1/44100\<close>.\<close>

theorem add_note_start_times_witness:
  "(1::nat) < length [short_note, short_rest]
   \<and> Suc 0 < length [short_note, short_rest]
   \<and> 0 \<le> n2_duration short_note \<and> 0 \<le> n2_duration short_rest
   \<and> snd (notes_left (foldl Piano2_add_note_left Piano2_init [short_note, short_rest]) ! 1)
        = 1 / 22050
   \<and> snd (notes_left (foldl Piano2_add_note_left Piano2_init [short_note, short_rest]) ! Suc 0)
        = snd (notes_left (foldl Piano2_add_note_left Piano2_init [short_note, short_rest]) ! 0)
          + 1 / 22050
   \<and> time_left (foldl Piano2_add_note_left Piano2_init [short_note, short_rest]) = 3 / 44100
   \<and> sorted (map snd (notes_right (foldl Piano2_add_note_right Piano2_init [short_note, short_rest])))"
proof -
  let ?ns = "[short_note, short_rest]"
  note inst = add_note_start_times [of ?ns Piano2_init]
  have k: "(1::nat) < length ?ns" and k': "Suc 0 < length ?ns"
    by simp_all
  have d: "\<forall>n \<in> set ?ns. 0 \<le> n2_duration n"
    by (simp add: short_note_def short_rest_def)
  from inst k have "snd (notes_left (foldl Piano2_add_note_left Piano2_init ?ns) ! 1)
      = sum_list (map n2_duration (take 1 ?ns))"
    by blast
  then have 1: "snd (notes_left (foldl Piano2_add_note_left Piano2_init ?ns) ! 1) = 1 / 22050"
    by (simp add: short_note_def)
  from inst k' have "snd (notes_left (foldl Piano2_add_note_left Piano2_init ?ns) ! Suc 0)
      = snd (notes_left (foldl Piano2_add_note_left Piano2_init ?ns) ! 0) + n2_duration (?ns ! 0)"
    by blast
  then have 2: "snd (notes_left (foldl Piano2_add_note_left Piano2_init ?ns) ! Suc 0)
      = snd (notes_left (foldl Piano2_add_note_left Piano2_init ?ns) ! 0) + 1 / 22050"
    by (simp add: short_note_def)
  from inst have "time_left (foldl Piano2_add_note_left Piano2_init ?ns)
      = sum_list (map n2_duration ?ns)"
    by blast
  then have 3: "time_left (foldl Piano2_add_note_left Piano2_init ?ns) = 3 / 44100"
    by (simp add: short_note_def short_rest_def)
  from inst d have 4: "sorted (map snd (notes_right (foldl Piano2_add_note_right Piano2_init ?ns)))"
    by blast
  have d': "0 \<le> n2_duration short_note \<and> 0 \<le> n2_duration short_rest"
    by (simp add: short_note_def short_rest_def)
  from k k' d' 1 2 3 4 show ?thesis
    by blast
qed

section \<open>honors2: one round of the timeline mixer\<close>























subsection \<open>C6: a placement that overruns the accumulator\<close>




section \<open>honors2: rendering the two hands\<close>













subsection \<open>C3: the length of the rendering, and the tail of the shorter voice\<close>






end
